theory Spec2Isabelle
  imports Main
begin

section \<open>Molecule-to-graph projection of the SMILES notebook\<close>

text \<open>
  The notebook \<^verbatim>\<open>01-Modeling-Molecular-Structures-as-Graph-Data-Gremlin.ipynb\<close>
  parses a SMILES descriptor with RDKit, projects the atoms and bonds of the parsed
  molecule into two dictionaries of columns, turns them into data frames, uploads them
  and, in its last cell, removes the uploaded vertices again. This theory embeds the
  cells the notebook writes itself: the two dictionaries, the two projection loops,
  the data-frame cell and the clean-up loop. The libraries the cells call (RDKit's
  parser, pandas, awswrangler) stay outside: the parsed molecule is an input, and the
  remote store is the sequence of queries sent to it.
\<close>

subsection \<open>Python's \<^verbatim>\<open>str\<close> on integers\<close>

text \<open>
  \<^verbatim>\<open>str(i)\<close> of a Python integer is its decimal rendering, most significant digit
  first, with a leading minus sign for a negative number.
\<close>

definition digit :: "nat \<Rightarrow> char" where
  "digit d = char_of (d + 48)"

fun str_nat :: "nat \<Rightarrow> string" where
  "str_nat n = (if n < 10 then [digit n] else str_nat (n div 10) @ [digit (n mod 10)])"

declare str_nat.simps [simp del]

definition str :: "int \<Rightarrow> string" where
  "str i = (if i < 0 then CHR ''-'' # str_nat (nat (- i)) else str_nat (nat i))"

text \<open>Reading a digit string back, used to show that the rendering loses nothing.\<close>

definition digit_val :: "char \<Rightarrow> nat" where
  "digit_val c = of_char c - 48"

definition val_digits :: "string \<Rightarrow> nat" where
  "val_digits cs = foldl (\<lambda>v c. 10 * v + digit_val c) 0 cs"

subsection \<open>The parsed molecule\<close>

text \<open>
  What the loops read of RDKit's objects: of an atom its index, symbol, atomic number
  and aromaticity flag; of a bond its two end indices and its bond type. The bond type
  is RDKit's enumeration, which the notebook only passes to \<^verbatim>\<open>str\<close>; the
  enumeration is the type parameter \<open>'bt\<close> and its \<^verbatim>\<open>str\<close> is the parameter
  \<open>str_bt\<close> of the loop. \<^verbatim>\<open>mol.GetAtoms()\<close> and \<^verbatim>\<open>mol.GetBonds()\<close> are the
  sequences the \<^verbatim>\<open>for\<close> loops run over.
\<close>

record atom =
  GetIdx :: int
  GetSymbol :: string
  GetAtomicNum :: int
  GetIsAromatic :: bool

record 'bt bond =
  GetBeginAtomIdx :: int
  GetEndAtomIdx :: int
  GetBondType :: 'bt

record 'bt Mol =
  GetAtoms :: "atom list"
  GetBonds :: "'bt bond list"

subsection \<open>The two dictionaries and the notebook's variables\<close>

text \<open>
  \<^verbatim>\<open>nodes_dict\<close> has the five keys \<^verbatim>\<open>'~id'\<close>, \<^verbatim>\<open>'~label'\<close>, \<^verbatim>\<open>'idx'\<close>,
  \<^verbatim>\<open>'atomicNumber'\<close>, \<^verbatim>\<open>'isAromatic'\<close> and \<^verbatim>\<open>edges_dict\<close> the four keys
  \<^verbatim>\<open>'~id'\<close>, \<^verbatim>\<open>'~label'\<close>, \<^verbatim>\<open>'~from'\<close>, \<^verbatim>\<open>'~to'\<close>, each bound to a list. The key set
  never changes, so each dictionary is a record of its columns.
\<close>

record nodes_table =
  nd_id :: "string list"
  nd_label :: "string list"
  nd_idx :: "int list"
  nd_atomicNumber :: "int list"
  nd_isAromatic :: "bool list"

record edges_table =
  ed_id :: "string list"
  ed_label :: "string list"
  ed_from :: "string list"
  ed_to :: "string list"

definition empty_nodes :: nodes_table where
  "empty_nodes = \<lparr>nd_id = [], nd_label = [], nd_idx = [], nd_atomicNumber = [],
     nd_isAromatic = []\<rparr>"

definition empty_edges :: edges_table where
  "empty_edges = \<lparr>ed_id = [], ed_label = [], ed_from = [], ed_to = []\<rparr>"

text \<open>
  The variables of the notebook session that the cells read or write. \<open>client\<close> is the
  connection to the remote store, modelled by the Gremlin queries submitted through it,
  oldest first. The cells are top-level code, so the targets of their \<^verbatim>\<open>for\<close>
  statements are session variables like the others: \<open>atom\<close> and \<open>bond\<close> for the two
  projection loops and \<open>loop_i\<close> for the variable \<^verbatim>\<open>i\<close> of the clean-up loop, each
  \<open>None\<close> while the name is unbound. Whatever else the session holds is the extension
  slot of the record.
\<close>

record 'bt notebook =
  caffeine_smiles :: string
  mol :: "'bt Mol"
  nodes_dict :: nodes_table
  edges_dict :: edges_table
  nodes_df :: nodes_table
  edges_df :: edges_table
  client :: "string list"
  atom :: "atom option"
  bond :: "'bt bond option"
  loop_i :: "string option"

subsection \<open>The projection loops\<close>

text \<open>One \<^verbatim>\<open>append\<close> to one column of one dictionary.\<close>

definition nd_id_append :: "string \<Rightarrow> ('bt, 'z) notebook_scheme \<Rightarrow> ('bt, 'z) notebook_scheme" where
  "nd_id_append v s = s\<lparr>nodes_dict := (nodes_dict s)\<lparr>nd_id := nd_id (nodes_dict s) @ [v]\<rparr>\<rparr>"

definition nd_label_append :: "string \<Rightarrow> ('bt, 'z) notebook_scheme \<Rightarrow> ('bt, 'z) notebook_scheme" where
  "nd_label_append v s = s\<lparr>nodes_dict := (nodes_dict s)\<lparr>nd_label := nd_label (nodes_dict s) @ [v]\<rparr>\<rparr>"

definition nd_idx_append :: "int \<Rightarrow> ('bt, 'z) notebook_scheme \<Rightarrow> ('bt, 'z) notebook_scheme" where
  "nd_idx_append v s = s\<lparr>nodes_dict := (nodes_dict s)\<lparr>nd_idx := nd_idx (nodes_dict s) @ [v]\<rparr>\<rparr>"

definition nd_atomicNumber_append :: "int \<Rightarrow> ('bt, 'z) notebook_scheme \<Rightarrow> ('bt, 'z) notebook_scheme" where
  "nd_atomicNumber_append v s =
     s\<lparr>nodes_dict := (nodes_dict s)\<lparr>nd_atomicNumber := nd_atomicNumber (nodes_dict s) @ [v]\<rparr>\<rparr>"

definition nd_isAromatic_append :: "bool \<Rightarrow> ('bt, 'z) notebook_scheme \<Rightarrow> ('bt, 'z) notebook_scheme" where
  "nd_isAromatic_append v s =
     s\<lparr>nodes_dict := (nodes_dict s)\<lparr>nd_isAromatic := nd_isAromatic (nodes_dict s) @ [v]\<rparr>\<rparr>"

definition ed_id_append :: "string \<Rightarrow> ('bt, 'z) notebook_scheme \<Rightarrow> ('bt, 'z) notebook_scheme" where
  "ed_id_append v s = s\<lparr>edges_dict := (edges_dict s)\<lparr>ed_id := ed_id (edges_dict s) @ [v]\<rparr>\<rparr>"

definition ed_label_append :: "string \<Rightarrow> ('bt, 'z) notebook_scheme \<Rightarrow> ('bt, 'z) notebook_scheme" where
  "ed_label_append v s = s\<lparr>edges_dict := (edges_dict s)\<lparr>ed_label := ed_label (edges_dict s) @ [v]\<rparr>\<rparr>"

definition ed_from_append :: "string \<Rightarrow> ('bt, 'z) notebook_scheme \<Rightarrow> ('bt, 'z) notebook_scheme" where
  "ed_from_append v s = s\<lparr>edges_dict := (edges_dict s)\<lparr>ed_from := ed_from (edges_dict s) @ [v]\<rparr>\<rparr>"

definition ed_to_append :: "string \<Rightarrow> ('bt, 'z) notebook_scheme \<Rightarrow> ('bt, 'z) notebook_scheme" where
  "ed_to_append v s = s\<lparr>edges_dict := (edges_dict s)\<lparr>ed_to := ed_to (edges_dict s) @ [v]\<rparr>\<rparr>"

text \<open>
  The body of \<^verbatim>\<open>for atom in mol.GetAtoms():\<close>, its five statements in order, for the
  atom \<open>a\<close> that the variable \<^verbatim>\<open>atom\<close> holds during the iteration. Each statement
  reads \<^verbatim>\<open>caffeine_smiles\<close> from the state it runs in.
\<close>

definition atom_body :: "atom \<Rightarrow> ('bt, 'z) notebook_scheme \<Rightarrow> ('bt, 'z) notebook_scheme" where
  "atom_body a s =
     (let s1 = nd_id_append (''Node-'' @ caffeine_smiles s @ str (GetIdx a)) s;
          s2 = nd_label_append (GetSymbol a) s1;
          s3 = nd_idx_append (GetIdx a) s2;
          s4 = nd_atomicNumber_append (GetAtomicNum a) s3
      in nd_isAromatic_append (GetIsAromatic a) s4)"

text \<open>The body of \<^verbatim>\<open>for bond in mol.GetBonds():\<close>, its four statements in order.\<close>

definition bond_body ::
  "('bt \<Rightarrow> string) \<Rightarrow> 'bt bond \<Rightarrow> ('bt, 'z) notebook_scheme \<Rightarrow> ('bt, 'z) notebook_scheme" where
  "bond_body str_bt b s =
     (let s1 = ed_id_append
                 (''edge-'' @ caffeine_smiles s @ str (GetBeginAtomIdx b) @ str (GetEndAtomIdx b)) s;
          s2 = ed_label_append (str_bt (GetBondType b)) s1;
          s3 = ed_from_append (''Node-'' @ caffeine_smiles s2 @ str (GetBeginAtomIdx b)) s2
      in ed_to_append (''Node-'' @ caffeine_smiles s3 @ str (GetEndAtomIdx b)) s3)"

text \<open>
  One iteration of a \<^verbatim>\<open>for\<close> statement: the next element is assigned to the loop
  variable, whatever it held before, and then the body runs. After the last iteration
  the variable keeps the last element; over an empty sequence nothing is assigned.
\<close>

definition atom_iteration :: "atom \<Rightarrow> ('bt, 'z) notebook_scheme \<Rightarrow> ('bt, 'z) notebook_scheme" where
  "atom_iteration a s = atom_body a (s\<lparr>atom := Some a\<rparr>)"

definition bond_iteration ::
  "('bt \<Rightarrow> string) \<Rightarrow> 'bt bond \<Rightarrow> ('bt, 'z) notebook_scheme \<Rightarrow> ('bt, 'z) notebook_scheme" where
  "bond_iteration str_bt b s = bond_body str_bt b (s\<lparr>bond := Some b\<rparr>)"

text \<open>The loops: one iteration per element, in sequence order.\<close>

fun for_atoms :: "atom list \<Rightarrow> ('bt, 'z) notebook_scheme \<Rightarrow> ('bt, 'z) notebook_scheme" where
  "for_atoms [] s = s"
| "for_atoms (a # as) s = for_atoms as (atom_iteration a s)"

fun for_bonds ::
  "('bt \<Rightarrow> string) \<Rightarrow> 'bt bond list \<Rightarrow> ('bt, 'z) notebook_scheme \<Rightarrow> ('bt, 'z) notebook_scheme" where
  "for_bonds str_bt [] s = s"
| "for_bonds str_bt (b # bs) s = for_bonds str_bt bs (bond_iteration str_bt b s)"

text \<open>The projection cell: the atom loop, then the bond loop.\<close>

definition projection :: "('bt \<Rightarrow> string) \<Rightarrow> ('bt, 'z) notebook_scheme \<Rightarrow> ('bt, 'z) notebook_scheme" where
  "projection str_bt s =
     (let s1 = for_atoms (GetAtoms (mol s)) s
      in for_bonds str_bt (GetBonds (mol s1)) s1)"


subsection \<open>The data-frame cell and the clean-up loop\<close>

text \<open>
  \<^verbatim>\<open>nodes_df = pd.DataFrame.from_dict(nodes_dict)\<close> and the same for the edges. pandas
  is outside the notebook; the frame is taken to have the dictionary's columns, in the
  dictionary's row order, which is all the clean-up loop reads of it.
\<close>

definition data_frames :: "('bt, 'z) notebook_scheme \<Rightarrow> ('bt, 'z) notebook_scheme" where
  "data_frames s = (let s1 = s\<lparr>nodes_df := nodes_dict s\<rparr> in s1\<lparr>edges_df := edges_dict s1\<rparr>)"

text \<open>
  \<^verbatim>\<open>wr.neptune.execute_gremlin(client, q)\<close> submits one query through the
  connection.
\<close>

definition execute_gremlin :: "string \<Rightarrow> ('bt, 'z) notebook_scheme \<Rightarrow> ('bt, 'z) notebook_scheme" where
  "execute_gremlin q s = s\<lparr>client := client s @ [q]\<rparr>"

text \<open>
  The query text of the clean-up loop, \<^verbatim>\<open>"g.V().has('~id', '"+i+"').drop();"\<close>: the
  identifier between two single quotes (\<open>CHR 0x27\<close>), nothing escaped.
\<close>

definition drop_query :: "string \<Rightarrow> string" where
  "drop_query i = ''g.V().has('~id', '' @ [CHR 0x27] @ i @ [CHR 0x27] @ '').drop();''"

text \<open>
  The loop of the clean-up cell: each identifier is assigned to \<^verbatim>\<open>i\<close> and its query
  is submitted.
\<close>

fun for_ids :: "string list \<Rightarrow> ('bt, 'z) notebook_scheme \<Rightarrow> ('bt, 'z) notebook_scheme" where
  "for_ids [] s = s"
| "for_ids (i # is) s = for_ids is (execute_gremlin (drop_query i) (s\<lparr>loop_i := Some i\<rparr>))"

text \<open>The clean-up cell, \<^verbatim>\<open>for i in nodes_df['~id']:\<close>.\<close>

definition cleanup :: "('bt, 'z) notebook_scheme \<Rightarrow> ('bt, 'z) notebook_scheme" where
  "cleanup s = for_ids (nd_id (nodes_df s)) s"

subsection \<open>Records, rectangular tables and the states between iterations\<close>

text \<open>
  A record of a collection is one row across its columns: the \<open>k\<close>-th row exists when
  every column has a \<open>k\<close>-th entry.
\<close>

definition node_rows :: "nodes_table \<Rightarrow> (string \<times> string \<times> int \<times> int \<times> bool) list" where
  "node_rows t =
     zip (nd_id t) (zip (nd_label t) (zip (nd_idx t) (zip (nd_atomicNumber t) (nd_isAromatic t))))"

definition edge_rows :: "edges_table \<Rightarrow> (string \<times> string \<times> string \<times> string) list" where
  "edge_rows t = zip (ed_id t) (zip (ed_label t) (zip (ed_from t) (ed_to t)))"

definition rectangular_nodes :: "nodes_table \<Rightarrow> bool" where
  "rectangular_nodes t \<longleftrightarrow>
     length (nd_label t) = length (nd_id t) \<and> length (nd_idx t) = length (nd_id t) \<and>
     length (nd_atomicNumber t) = length (nd_id t) \<and> length (nd_isAromatic t) = length (nd_id t)"

definition rectangular_edges :: "edges_table \<Rightarrow> bool" where
  "rectangular_edges t \<longleftrightarrow>
     length (ed_label t) = length (ed_id t) \<and> length (ed_from t) = length (ed_id t) \<and>
     length (ed_to t) = length (ed_id t)"

definition rectangular :: "('bt, 'z) notebook_scheme \<Rightarrow> bool" where
  "rectangular s \<longleftrightarrow> rectangular_nodes (nodes_dict s) \<and> rectangular_edges (edges_dict s)"

text \<open>The state after each iteration of a loop, first iteration first.\<close>

fun atoms_trace :: "atom list \<Rightarrow> ('bt, 'z) notebook_scheme \<Rightarrow> ('bt, 'z) notebook_scheme list" where
  "atoms_trace [] s = []"
| "atoms_trace (a # as) s = atom_iteration a s # atoms_trace as (atom_iteration a s)"

fun bonds_trace ::
  "('bt \<Rightarrow> string) \<Rightarrow> 'bt bond list \<Rightarrow> ('bt, 'z) notebook_scheme \<Rightarrow> ('bt, 'z) notebook_scheme list" where
  "bonds_trace str_bt [] s = []"
| "bonds_trace str_bt (b # bs) s =
     bond_iteration str_bt b s # bonds_trace str_bt bs (bond_iteration str_bt b s)"

definition projection_trace ::
  "('bt \<Rightarrow> string) \<Rightarrow> ('bt, 'z) notebook_scheme \<Rightarrow> ('bt, 'z) notebook_scheme list" where
  "projection_trace str_bt s =
     (let s1 = for_atoms (GetAtoms (mol s)) s
      in atoms_trace (GetAtoms (mol s)) s @ bonds_trace str_bt (GetBonds (mol s1)) s1)"

subsection \<open>The identifiers, as functions of the descriptor and the indices\<close>

definition node_id :: "string \<Rightarrow> int \<Rightarrow> string" where
  "node_id d i = ''Node-'' @ d @ str i"

definition edge_id :: "string \<Rightarrow> int \<Rightarrow> int \<Rightarrow> string" where
  "edge_id d i j = ''edge-'' @ d @ str i @ str j"

subsection \<open>Example sessions\<close>

text \<open>
  Concrete inputs on which the theorems below are instantiated. The bond types are the
  four that occur in them, printed by their names. \<open>ethanol_mol\<close> is the molecule of
  the descriptor \<^verbatim>\<open>CCO\<close>. \<open>caffeine_mol\<close> is the molecule of the notebook's descriptor:
  its fourteen heavy atoms in the order the descriptor writes them, the thirteen chain
  bonds in that order and then the two ring-closure bonds.
\<close>

datatype BondType = SINGLE | DOUBLE | TRIPLE | AROMATIC

fun BondType_str :: "BondType \<Rightarrow> string" where
  "BondType_str SINGLE = ''SINGLE''"
| "BondType_str DOUBLE = ''DOUBLE''"
| "BondType_str TRIPLE = ''TRIPLE''"
| "BondType_str AROMATIC = ''AROMATIC''"

definition mk_atom :: "int \<Rightarrow> string \<Rightarrow> int \<Rightarrow> bool \<Rightarrow> atom" where
  "mk_atom i el z ar = \<lparr>GetIdx = i, GetSymbol = el, GetAtomicNum = z, GetIsAromatic = ar\<rparr>"

definition mk_bond :: "int \<Rightarrow> int \<Rightarrow> 'bt \<Rightarrow> 'bt bond" where
  "mk_bond i j t = \<lparr>GetBeginAtomIdx = i, GetEndAtomIdx = j, GetBondType = t\<rparr>"

definition ethanol_mol :: "BondType Mol" where
  "ethanol_mol =
     \<lparr>GetAtoms = [mk_atom 0 ''C'' 6 False, mk_atom 1 ''C'' 6 False, mk_atom 2 ''O'' 8 False],
      GetBonds = [mk_bond 0 1 SINGLE, mk_bond 1 2 SINGLE]\<rparr>"

definition caffeine_mol :: "BondType Mol" where
  "caffeine_mol =
     \<lparr>GetAtoms =
        [mk_atom 0 ''C'' 6 False, mk_atom 1 ''N'' 7 True, mk_atom 2 ''C'' 6 True,
         mk_atom 3 ''N'' 7 True, mk_atom 4 ''C'' 6 True, mk_atom 5 ''C'' 6 True,
         mk_atom 6 ''C'' 6 True, mk_atom 7 ''O'' 8 False, mk_atom 8 ''N'' 7 True,
         mk_atom 9 ''C'' 6 True, mk_atom 10 ''O'' 8 False, mk_atom 11 ''N'' 7 True,
         mk_atom 12 ''C'' 6 False, mk_atom 13 ''C'' 6 False],
      GetBonds =
        [mk_bond 0 1 SINGLE, mk_bond 1 2 AROMATIC, mk_bond 2 3 AROMATIC, mk_bond 3 4 AROMATIC,
         mk_bond 4 5 AROMATIC, mk_bond 5 6 AROMATIC, mk_bond 6 7 DOUBLE, mk_bond 6 8 AROMATIC,
         mk_bond 8 9 AROMATIC, mk_bond 9 10 DOUBLE, mk_bond 9 11 AROMATIC, mk_bond 11 12 SINGLE,
         mk_bond 8 13 SINGLE, mk_bond 5 1 AROMATIC, mk_bond 11 4 AROMATIC]\<rparr>"

definition session :: "string \<Rightarrow> 'bt Mol \<Rightarrow> 'bt notebook" where
  "session d m =
     \<lparr>caffeine_smiles = d, mol = m, nodes_dict = empty_nodes, edges_dict = empty_edges,
      nodes_df = empty_nodes, edges_df = empty_edges, client = [], atom = None, bond = None,
      loop_i = None\<rparr>"

definition ethanol_session :: "BondType notebook" where
  "ethanol_session = session ''CCO'' ethanol_mol"

definition caffeine_session :: "BondType notebook" where
  "caffeine_session = session ''CN1C=NC2=C1C(=O)N(C(=O)N2C)C'' caffeine_mol"

section \<open>Properties\<close>

subsection \<open>The decimal rendering\<close>

lemma digit_val_digit: "d < 10 \<Longrightarrow> digit_val (digit d) = d"
  by (simp add: digit_val_def digit_def)

lemma digit_not_minus: "d < 10 \<Longrightarrow> digit d \<noteq> CHR ''-''"
proof
  assume d: "d < 10" and e: "digit d = CHR ''-''"
  from e have "(of_char (digit d) :: nat) = of_char CHR ''-''" by simp
  with d show False by (simp add: digit_def)
qed

lemma val_digits_snoc: "val_digits (cs @ [c]) = 10 * val_digits cs + digit_val c"
  by (simp add: val_digits_def)

lemma val_digits_str_nat: "val_digits (str_nat n) = n"
proof (induction n rule: str_nat.induct)
  case (1 n)
  show ?case
  proof (cases "n < 10")
    case True
    then show ?thesis
      by (simp add: str_nat.simps [of n] val_digits_def digit_val_digit)
  next
    case False
    with 1 have "val_digits (str_nat (n div 10)) = n div 10" by simp
    with False show ?thesis
      by (simp add: str_nat.simps [of n] val_digits_snoc digit_val_digit)
  qed
qed

lemma str_nat_inj: "str_nat m = str_nat n \<Longrightarrow> m = n"
  by (metis val_digits_str_nat)

lemma str_nat_no_minus: "CHR ''-'' \<notin> set (str_nat n)"
proof (induction n rule: str_nat.induct)
  case (1 n)
  show ?case
  proof (cases "n < 10")
    case True
    then show ?thesis
      using digit_not_minus [of n] by (auto simp: str_nat.simps [of n])
  next
    case False
    with 1 have "CHR ''-'' \<notin> set (str_nat (n div 10))" by simp
    with False show ?thesis
      using digit_not_minus [of "n mod 10"] by (auto simp: str_nat.simps [of n])
  qed
qed

lemma str_nat_not_Nil: "str_nat n \<noteq> []"
  by (simp add: str_nat.simps [of n])

lemma str_nat_not_minus_Cons: "str_nat n \<noteq> CHR ''-'' # cs"
  using str_nat_no_minus [of n] by (metis list.set_intros(1))

lemma str_inj: "str i = str j \<Longrightarrow> i = j"
proof -
  assume e: "str i = str j"
  consider (nn) "i < 0" "j < 0" | (np) "i < 0" "\<not> j < 0" | (pn) "\<not> i < 0" "j < 0"
    | (pp) "\<not> i < 0" "\<not> j < 0" by blast
  then show ?thesis
  proof cases
    case nn
    with e have "nat (- i) = nat (- j)" by (simp add: str_def str_nat_inj)
    with nn show ?thesis by simp
  next
    case np
    with e have "str_nat (nat j) = CHR ''-'' # str_nat (nat (- i))" by (simp add: str_def)
    then show ?thesis using str_nat_not_minus_Cons by blast
  next
    case pn
    with e have "str_nat (nat i) = CHR ''-'' # str_nat (nat (- j))" by (simp add: str_def)
    then show ?thesis using str_nat_not_minus_Cons by blast
  next
    case pp
    with e have "nat i = nat j" by (simp add: str_def str_nat_inj)
    with pp show ?thesis by simp
  qed
qed

lemma str_eq_iff: "str i = str j \<longleftrightarrow> i = j"
  using str_inj by blast

lemma length_str_digit: "0 \<le> i \<Longrightarrow> i \<le> 9 \<Longrightarrow> length (str i) = 1"
proof -
  assume "0 \<le> i" and "i \<le> 9"
  then have "nat i < 10" and "\<not> i < 0" by simp_all
  then show ?thesis by (simp add: str_def str_nat.simps [of "nat i"])
qed

lemma str_examples: "str 0 = ''0'' \<and> str 7 = ''7'' \<and> str 13 = ''13'' \<and> str 105 = ''105'' \<and> str (- 42) = ''-42''"
  by code_simp

lemma node_id_eq_iff: "node_id d i = node_id d j \<longleftrightarrow> i = j"
  by (simp add: node_id_def str_eq_iff)


subsection \<open>One iteration\<close>

lemma atom_body_other:
  "caffeine_smiles (atom_body a s) = caffeine_smiles s"
  "mol (atom_body a s) = mol s"
  "edges_dict (atom_body a s) = edges_dict s"
  "nodes_df (atom_body a s) = nodes_df s"
  "edges_df (atom_body a s) = edges_df s"
  "client (atom_body a s) = client s"
  "atom (atom_body a s) = atom s"
  "bond (atom_body a s) = bond s"
  "loop_i (atom_body a s) = loop_i s"
  "notebook.more (atom_body a s) = notebook.more s"
  by (simp_all add: atom_body_def Let_def nd_id_append_def nd_label_append_def nd_idx_append_def
      nd_atomicNumber_append_def nd_isAromatic_append_def)

lemma atom_body_columns:
  "nd_id (nodes_dict (atom_body a s)) = nd_id (nodes_dict s) @ [node_id (caffeine_smiles s) (GetIdx a)]"
  "nd_label (nodes_dict (atom_body a s)) = nd_label (nodes_dict s) @ [GetSymbol a]"
  "nd_idx (nodes_dict (atom_body a s)) = nd_idx (nodes_dict s) @ [GetIdx a]"
  "nd_atomicNumber (nodes_dict (atom_body a s)) = nd_atomicNumber (nodes_dict s) @ [GetAtomicNum a]"
  "nd_isAromatic (nodes_dict (atom_body a s)) = nd_isAromatic (nodes_dict s) @ [GetIsAromatic a]"
  by (simp_all add: atom_body_def Let_def nd_id_append_def nd_label_append_def nd_idx_append_def
      nd_atomicNumber_append_def nd_isAromatic_append_def node_id_def)

lemma bond_body_other:
  "caffeine_smiles (bond_body str_bt b s) = caffeine_smiles s"
  "mol (bond_body str_bt b s) = mol s"
  "nodes_dict (bond_body str_bt b s) = nodes_dict s"
  "nodes_df (bond_body str_bt b s) = nodes_df s"
  "edges_df (bond_body str_bt b s) = edges_df s"
  "client (bond_body str_bt b s) = client s"
  "atom (bond_body str_bt b s) = atom s"
  "bond (bond_body str_bt b s) = bond s"
  "loop_i (bond_body str_bt b s) = loop_i s"
  "notebook.more (bond_body str_bt b s) = notebook.more s"
  by (simp_all add: bond_body_def Let_def ed_id_append_def ed_label_append_def ed_from_append_def
      ed_to_append_def)

lemma bond_body_columns:
  "ed_id (edges_dict (bond_body str_bt b s)) =
     ed_id (edges_dict s) @ [edge_id (caffeine_smiles s) (GetBeginAtomIdx b) (GetEndAtomIdx b)]"
  "ed_label (edges_dict (bond_body str_bt b s)) = ed_label (edges_dict s) @ [str_bt (GetBondType b)]"
  "ed_from (edges_dict (bond_body str_bt b s)) =
     ed_from (edges_dict s) @ [node_id (caffeine_smiles s) (GetBeginAtomIdx b)]"
  "ed_to (edges_dict (bond_body str_bt b s)) =
     ed_to (edges_dict s) @ [node_id (caffeine_smiles s) (GetEndAtomIdx b)]"
  by (simp_all add: bond_body_def Let_def ed_id_append_def ed_label_append_def ed_from_append_def
      ed_to_append_def node_id_def edge_id_def)

lemma atom_iteration_other:
  "caffeine_smiles (atom_iteration a s) = caffeine_smiles s"
  "mol (atom_iteration a s) = mol s"
  "edges_dict (atom_iteration a s) = edges_dict s"
  "nodes_df (atom_iteration a s) = nodes_df s"
  "edges_df (atom_iteration a s) = edges_df s"
  "client (atom_iteration a s) = client s"
  "bond (atom_iteration a s) = bond s"
  "loop_i (atom_iteration a s) = loop_i s"
  "notebook.more (atom_iteration a s) = notebook.more s"
  by (simp_all add: atom_iteration_def atom_body_other)

lemma atom_iteration_atom: "atom (atom_iteration a s) = Some a"
  by (simp add: atom_iteration_def atom_body_other)

lemma atom_iteration_columns:
  "nd_id (nodes_dict (atom_iteration a s)) =
     nd_id (nodes_dict s) @ [node_id (caffeine_smiles s) (GetIdx a)]"
  "nd_label (nodes_dict (atom_iteration a s)) = nd_label (nodes_dict s) @ [GetSymbol a]"
  "nd_idx (nodes_dict (atom_iteration a s)) = nd_idx (nodes_dict s) @ [GetIdx a]"
  "nd_atomicNumber (nodes_dict (atom_iteration a s)) =
     nd_atomicNumber (nodes_dict s) @ [GetAtomicNum a]"
  "nd_isAromatic (nodes_dict (atom_iteration a s)) =
     nd_isAromatic (nodes_dict s) @ [GetIsAromatic a]"
  by (simp_all add: atom_iteration_def atom_body_columns)

lemma bond_iteration_other:
  "caffeine_smiles (bond_iteration str_bt b s) = caffeine_smiles s"
  "mol (bond_iteration str_bt b s) = mol s"
  "nodes_dict (bond_iteration str_bt b s) = nodes_dict s"
  "nodes_df (bond_iteration str_bt b s) = nodes_df s"
  "edges_df (bond_iteration str_bt b s) = edges_df s"
  "client (bond_iteration str_bt b s) = client s"
  "atom (bond_iteration str_bt b s) = atom s"
  "loop_i (bond_iteration str_bt b s) = loop_i s"
  "notebook.more (bond_iteration str_bt b s) = notebook.more s"
  by (simp_all add: bond_iteration_def bond_body_other)

lemma bond_iteration_bond: "bond (bond_iteration str_bt b s) = Some b"
  by (simp add: bond_iteration_def bond_body_other)

lemma bond_iteration_columns:
  "ed_id (edges_dict (bond_iteration str_bt b s)) =
     ed_id (edges_dict s) @ [edge_id (caffeine_smiles s) (GetBeginAtomIdx b) (GetEndAtomIdx b)]"
  "ed_label (edges_dict (bond_iteration str_bt b s)) =
     ed_label (edges_dict s) @ [str_bt (GetBondType b)]"
  "ed_from (edges_dict (bond_iteration str_bt b s)) =
     ed_from (edges_dict s) @ [node_id (caffeine_smiles s) (GetBeginAtomIdx b)]"
  "ed_to (edges_dict (bond_iteration str_bt b s)) =
     ed_to (edges_dict s) @ [node_id (caffeine_smiles s) (GetEndAtomIdx b)]"
  by (simp_all add: bond_iteration_def bond_body_columns)

subsection \<open>The loops\<close>

lemma for_atoms_other:
  "caffeine_smiles (for_atoms as s) = caffeine_smiles s"
  "mol (for_atoms as s) = mol s"
  "edges_dict (for_atoms as s) = edges_dict s"
  "nodes_df (for_atoms as s) = nodes_df s"
  "edges_df (for_atoms as s) = edges_df s"
  "client (for_atoms as s) = client s"
  "bond (for_atoms as s) = bond s"
  "loop_i (for_atoms as s) = loop_i s"
  "notebook.more (for_atoms as s) = notebook.more s"
  by (induction as arbitrary: s; simp add: atom_iteration_other)+

lemma for_atoms_atom: "atom (for_atoms as s) = (if as = [] then atom s else Some (last as))"
  by (induction as arbitrary: s) (simp_all add: atom_iteration_atom)

lemma for_atoms_columns:
  "nd_id (nodes_dict (for_atoms as s)) =
     nd_id (nodes_dict s) @ map (\<lambda>a. node_id (caffeine_smiles s) (GetIdx a)) as"
  "nd_label (nodes_dict (for_atoms as s)) = nd_label (nodes_dict s) @ map GetSymbol as"
  "nd_idx (nodes_dict (for_atoms as s)) = nd_idx (nodes_dict s) @ map GetIdx as"
  "nd_atomicNumber (nodes_dict (for_atoms as s)) = nd_atomicNumber (nodes_dict s) @ map GetAtomicNum as"
  "nd_isAromatic (nodes_dict (for_atoms as s)) = nd_isAromatic (nodes_dict s) @ map GetIsAromatic as"
  by (induction as arbitrary: s; simp add: atom_iteration_other atom_iteration_columns)+

lemma for_bonds_other:
  "caffeine_smiles (for_bonds str_bt bs s) = caffeine_smiles s"
  "mol (for_bonds str_bt bs s) = mol s"
  "nodes_dict (for_bonds str_bt bs s) = nodes_dict s"
  "nodes_df (for_bonds str_bt bs s) = nodes_df s"
  "edges_df (for_bonds str_bt bs s) = edges_df s"
  "client (for_bonds str_bt bs s) = client s"
  "atom (for_bonds str_bt bs s) = atom s"
  "loop_i (for_bonds str_bt bs s) = loop_i s"
  "notebook.more (for_bonds str_bt bs s) = notebook.more s"
  by (induction bs arbitrary: s; simp add: bond_iteration_other)+

lemma for_bonds_bond:
  "bond (for_bonds str_bt bs s) = (if bs = [] then bond s else Some (last bs))"
  by (induction bs arbitrary: s) (simp_all add: bond_iteration_bond)

lemma for_bonds_columns:
  "ed_id (edges_dict (for_bonds str_bt bs s)) =
     ed_id (edges_dict s) @
     map (\<lambda>b. edge_id (caffeine_smiles s) (GetBeginAtomIdx b) (GetEndAtomIdx b)) bs"
  "ed_label (edges_dict (for_bonds str_bt bs s)) =
     ed_label (edges_dict s) @ map (\<lambda>b. str_bt (GetBondType b)) bs"
  "ed_from (edges_dict (for_bonds str_bt bs s)) =
     ed_from (edges_dict s) @ map (\<lambda>b. node_id (caffeine_smiles s) (GetBeginAtomIdx b)) bs"
  "ed_to (edges_dict (for_bonds str_bt bs s)) =
     ed_to (edges_dict s) @ map (\<lambda>b. node_id (caffeine_smiles s) (GetEndAtomIdx b)) bs"
  by (induction bs arbitrary: s; simp add: bond_iteration_other bond_iteration_columns)+

subsection \<open>The projection cell\<close>

lemma projection_other:
  "caffeine_smiles (projection str_bt s) = caffeine_smiles s"
  "mol (projection str_bt s) = mol s"
  "nodes_df (projection str_bt s) = nodes_df s"
  "edges_df (projection str_bt s) = edges_df s"
  "client (projection str_bt s) = client s"
  "loop_i (projection str_bt s) = loop_i s"
  "notebook.more (projection str_bt s) = notebook.more s"
  by (simp_all add: projection_def Let_def for_bonds_other for_atoms_other)

lemma projection_loop_variables:
  "atom (projection str_bt s) =
     (if GetAtoms (mol s) = [] then atom s else Some (last (GetAtoms (mol s))))"
  "bond (projection str_bt s) =
     (if GetBonds (mol s) = [] then bond s else Some (last (GetBonds (mol s))))"
  by (simp_all add: projection_def Let_def for_bonds_other for_bonds_bond for_atoms_other
      for_atoms_atom)

lemma projection_node_columns:
  "nd_id (nodes_dict (projection str_bt s)) =
     nd_id (nodes_dict s) @ map (\<lambda>a. node_id (caffeine_smiles s) (GetIdx a)) (GetAtoms (mol s))"
  "nd_label (nodes_dict (projection str_bt s)) =
     nd_label (nodes_dict s) @ map GetSymbol (GetAtoms (mol s))"
  "nd_idx (nodes_dict (projection str_bt s)) = nd_idx (nodes_dict s) @ map GetIdx (GetAtoms (mol s))"
  "nd_atomicNumber (nodes_dict (projection str_bt s)) =
     nd_atomicNumber (nodes_dict s) @ map GetAtomicNum (GetAtoms (mol s))"
  "nd_isAromatic (nodes_dict (projection str_bt s)) =
     nd_isAromatic (nodes_dict s) @ map GetIsAromatic (GetAtoms (mol s))"
  by (simp_all add: projection_def Let_def for_bonds_other for_atoms_columns)

lemma projection_edge_columns:
  "ed_id (edges_dict (projection str_bt s)) =
     ed_id (edges_dict s) @
     map (\<lambda>b. edge_id (caffeine_smiles s) (GetBeginAtomIdx b) (GetEndAtomIdx b)) (GetBonds (mol s))"
  "ed_label (edges_dict (projection str_bt s)) =
     ed_label (edges_dict s) @ map (\<lambda>b. str_bt (GetBondType b)) (GetBonds (mol s))"
  "ed_from (edges_dict (projection str_bt s)) =
     ed_from (edges_dict s) @
     map (\<lambda>b. node_id (caffeine_smiles s) (GetBeginAtomIdx b)) (GetBonds (mol s))"
  "ed_to (edges_dict (projection str_bt s)) =
     ed_to (edges_dict s) @
     map (\<lambda>b. node_id (caffeine_smiles s) (GetEndAtomIdx b)) (GetBonds (mol s))"
  by (simp_all add: projection_def Let_def for_bonds_columns for_atoms_other)

lemma empty_columns:
  "nd_id empty_nodes = []" "nd_label empty_nodes = []" "nd_idx empty_nodes = []"
  "nd_atomicNumber empty_nodes = []" "nd_isAromatic empty_nodes = []"
  "ed_id empty_edges = []" "ed_label empty_edges = []" "ed_from empty_edges = []"
  "ed_to empty_edges = []"
  by (simp_all add: empty_nodes_def empty_edges_def)


lemma projection_rectangular_from_empty:
  assumes "nodes_dict s = empty_nodes" and "edges_dict s = empty_edges"
  shows "rectangular (projection str_bt s)"
  using assms
  by (simp add: rectangular_def rectangular_nodes_def rectangular_edges_def
      projection_node_columns projection_edge_columns empty_columns)

lemma example_sessions_start_empty:
  "nodes_dict (session d m) = empty_nodes" "edges_dict (session d m) = empty_edges"
  "caffeine_smiles (session d m) = d" "mol (session d m) = m" "client (session d m) = []"
  by (simp_all add: session_def)

lemma ethanol_projection:
  "nd_id (nodes_dict (projection BondType_str ethanol_session)) =
     [''Node-CCO0'', ''Node-CCO1'', ''Node-CCO2''] \<and>
   nd_label (nodes_dict (projection BondType_str ethanol_session)) = [''C'', ''C'', ''O''] \<and>
   nd_idx (nodes_dict (projection BondType_str ethanol_session)) = [0, 1, 2] \<and>
   nd_atomicNumber (nodes_dict (projection BondType_str ethanol_session)) = [6, 6, 8] \<and>
   nd_isAromatic (nodes_dict (projection BondType_str ethanol_session)) = [False, False, False] \<and>
   ed_id (edges_dict (projection BondType_str ethanol_session)) = [''edge-CCO01'', ''edge-CCO12''] \<and>
   ed_label (edges_dict (projection BondType_str ethanol_session)) = [''SINGLE'', ''SINGLE''] \<and>
   ed_from (edges_dict (projection BondType_str ethanol_session)) = [''Node-CCO0'', ''Node-CCO1''] \<and>
   ed_to (edges_dict (projection BondType_str ethanol_session)) = [''Node-CCO1'', ''Node-CCO2'']"
  by code_simp

subsection \<open>The clean-up loop\<close>

lemma for_ids_client: "client (for_ids is s) = client s @ map drop_query is"
  by (induction "is" arbitrary: s) (simp_all add: execute_gremlin_def)

lemma for_ids_loop_i: "loop_i (for_ids is s) = (if is = [] then loop_i s else Some (last is))"
  by (induction "is" arbitrary: s) (simp_all add: execute_gremlin_def)

lemma drop_query_eq_iff: "drop_query i = drop_query j \<longleftrightarrow> i = j"
  by (simp add: drop_query_def)

subsection \<open>Edge identifiers of single-digit indices\<close>

lemma edge_id_eq_iff_digits:
  assumes "0 \<le> i" "i \<le> 9" "0 \<le> i'" "i' \<le> 9"
  shows "edge_id d i j = edge_id d i' j' \<longleftrightarrow> i = i' \<and> j = j'"
proof -
  have "length (str i) = length (str i')"
    using assms by (simp add: length_str_digit)
  then have "str i @ str j = str i' @ str j' \<longleftrightarrow> str i = str i' \<and> str j = str j'"
    by simp
  then show ?thesis
    by (simp add: edge_id_def str_eq_iff)
qed

lemma edge_id_collision_beyond_digits: "edge_id d 1 12 = edge_id d 11 2"
proof -
  have "str 1 = ''1''" "str 12 = ''12''" "str 11 = ''11''" "str 2 = ''2''"
    by code_simp+
  then show ?thesis by (simp add: edge_id_def)
qed

subsection \<open>Rectangular tables\<close>

lemma atom_body_rectangular: "rectangular s \<Longrightarrow> rectangular (atom_body a s)"
  by (simp add: rectangular_def rectangular_nodes_def atom_body_columns atom_body_other)

lemma bond_body_rectangular: "rectangular s \<Longrightarrow> rectangular (bond_body str_bt b s)"
  by (simp add: rectangular_def rectangular_edges_def bond_body_columns bond_body_other)

lemma atom_iteration_rectangular: "rectangular s \<Longrightarrow> rectangular (atom_iteration a s)"
proof -
  assume "rectangular s"
  then have "rectangular (s\<lparr>atom := Some a\<rparr>)"
    by (simp add: rectangular_def)
  then show ?thesis
    unfolding atom_iteration_def by (rule atom_body_rectangular)
qed

lemma bond_iteration_rectangular:
  "rectangular s \<Longrightarrow> rectangular (bond_iteration str_bt b s)"
proof -
  assume "rectangular s"
  then have "rectangular (s\<lparr>bond := Some b\<rparr>)"
    by (simp add: rectangular_def)
  then show ?thesis
    unfolding bond_iteration_def by (rule bond_body_rectangular)
qed

lemma for_atoms_rectangular: "rectangular s \<Longrightarrow> rectangular (for_atoms as s)"
  by (induction as arbitrary: s) (simp_all add: atom_iteration_rectangular)

lemma atoms_trace_rectangular: "rectangular s \<Longrightarrow> t \<in> set (atoms_trace as s) \<Longrightarrow> rectangular t"
  by (induction as arbitrary: s) (auto intro: atom_iteration_rectangular)

lemma bonds_trace_rectangular:
  "rectangular s \<Longrightarrow> t \<in> set (bonds_trace str_bt bs s) \<Longrightarrow> rectangular t"
  by (induction bs arbitrary: s) (auto intro: bond_iteration_rectangular)

lemma for_atoms_last_trace: "for_atoms as s = last (s # atoms_trace as s)"
  by (induction as arbitrary: s) simp_all

lemma for_bonds_last_trace: "for_bonds str_bt bs s = last (s # bonds_trace str_bt bs s)"
  by (induction bs arbitrary: s) simp_all

lemma length_atoms_trace: "length (atoms_trace as s) = length as"
  by (induction as arbitrary: s) simp_all

lemma length_bonds_trace: "length (bonds_trace str_bt bs s) = length bs"
  by (induction bs arbitrary: s) simp_all

lemma empty_rectangular:
  "nodes_dict s = empty_nodes \<Longrightarrow> edges_dict s = empty_edges \<Longrightarrow> rectangular s"
  by (simp add: rectangular_def rectangular_nodes_def rectangular_edges_def empty_columns)

lemma projection_last_trace: "projection str_bt s = last (s # projection_trace str_bt s)"
proof -
  let ?s1 = "for_atoms (GetAtoms (mol s)) s"
  let ?A = "atoms_trace (GetAtoms (mol s)) s"
  let ?B = "bonds_trace str_bt (GetBonds (mol ?s1)) ?s1"
  have "projection str_bt s = last (?s1 # ?B)"
    by (simp only: projection_def Let_def for_bonds_last_trace)
  also have "\<dots> = last ((s # ?A) @ ?B)"
  proof (cases "?B = []")
    case True
    then show ?thesis by (simp add: for_atoms_last_trace)
  next
    case False
    then show ?thesis by simp
  qed
  finally show ?thesis by (simp add: projection_trace_def Let_def)
qed

section \<open>The claims\<close>

text \<open>
  C1. Starting from the two empty dictionaries, the projection of a molecule with N
  atoms and M bonds leaves exactly N node records and exactly M edge records: one row
  per atom and one row per bond (every column of the node table has N entries and every
  column of the edge table has M).
\<close>

theorem projection_record_counts:
  assumes "nodes_dict s = empty_nodes" and "edges_dict s = empty_edges"
  shows "length (node_rows (nodes_dict (projection str_bt s))) = length (GetAtoms (mol s)) \<and>
         length (edge_rows (edges_dict (projection str_bt s))) = length (GetBonds (mol s)) \<and>
         length (nd_id (nodes_dict (projection str_bt s))) = length (GetAtoms (mol s)) \<and>
         length (ed_id (edges_dict (projection str_bt s))) = length (GetBonds (mol s))"
  using assms
  by (simp add: node_rows_def edge_rows_def projection_node_columns projection_edge_columns
      empty_columns)

theorem projection_record_counts_witness:
  "nodes_dict ethanol_session = empty_nodes \<and> edges_dict ethanol_session = empty_edges \<and>
   length (node_rows (nodes_dict (projection BondType_str ethanol_session))) = 3 \<and>
   length (edge_rows (edges_dict (projection BondType_str ethanol_session))) = 2"
  using projection_record_counts [of ethanol_session BondType_str]
  by (simp add: ethanol_session_def example_sessions_start_empty ethanol_mol_def)


text \<open>
  C2. Referential consistency. When every bond of the parsed molecule begins and ends at
  an index of one of the molecule's atoms, every \<^verbatim>\<open>~from\<close> and every \<^verbatim>\<open>~to\<close> entry
  that a run from the empty dictionaries writes into the edge table is the \<^verbatim>\<open>~id\<close> of
  a node record written by the same run.
\<close>

theorem projection_edges_refer_to_nodes:
  assumes "nodes_dict s = empty_nodes" and "edges_dict s = empty_edges"
    and "\<forall>b \<in> set (GetBonds (mol s)).
           GetBeginAtomIdx b \<in> GetIdx ` set (GetAtoms (mol s)) \<and>
           GetEndAtomIdx b \<in> GetIdx ` set (GetAtoms (mol s))"
  shows "set (ed_from (edges_dict (projection str_bt s))) \<subseteq> set (nd_id (nodes_dict (projection str_bt s))) \<and>
         set (ed_to (edges_dict (projection str_bt s))) \<subseteq> set (nd_id (nodes_dict (projection str_bt s)))"
proof -
  let ?d = "caffeine_smiles s"
  have ids: "set (nd_id (nodes_dict (projection str_bt s))) =
               node_id ?d ` GetIdx ` set (GetAtoms (mol s))"
    using assms(1) by (simp add: projection_node_columns empty_columns image_image)
  have "set (ed_from (edges_dict (projection str_bt s))) =
          node_id ?d ` GetBeginAtomIdx ` set (GetBonds (mol s))"
    using assms(2) by (simp add: projection_edge_columns empty_columns image_image)
  moreover have "GetBeginAtomIdx ` set (GetBonds (mol s)) \<subseteq> GetIdx ` set (GetAtoms (mol s))"
    using assms(3) by blast
  ultimately have from_ok:
    "set (ed_from (edges_dict (projection str_bt s))) \<subseteq> node_id ?d ` GetIdx ` set (GetAtoms (mol s))"
    by blast
  have "set (ed_to (edges_dict (projection str_bt s))) =
          node_id ?d ` GetEndAtomIdx ` set (GetBonds (mol s))"
    using assms(2) by (simp add: projection_edge_columns empty_columns image_image)
  moreover have "GetEndAtomIdx ` set (GetBonds (mol s)) \<subseteq> GetIdx ` set (GetAtoms (mol s))"
    using assms(3) by blast
  ultimately have to_ok:
    "set (ed_to (edges_dict (projection str_bt s))) \<subseteq> node_id ?d ` GetIdx ` set (GetAtoms (mol s))"
    by blast
  from from_ok to_ok ids show ?thesis by simp
qed

theorem projection_edges_refer_to_nodes_witness:
  "nodes_dict caffeine_session = empty_nodes \<and> edges_dict caffeine_session = empty_edges \<and>
   list_all (\<lambda>b. GetBeginAtomIdx b \<in> GetIdx ` set (GetAtoms (mol caffeine_session)) \<and>
               GetEndAtomIdx b \<in> GetIdx ` set (GetAtoms (mol caffeine_session)))
     (GetBonds (mol caffeine_session)) \<and>
   set (ed_from (edges_dict (projection BondType_str caffeine_session)))
     \<subseteq> set (nd_id (nodes_dict (projection BondType_str caffeine_session))) \<and>
   set (ed_to (edges_dict (projection BondType_str caffeine_session)))
     \<subseteq> set (nd_id (nodes_dict (projection BondType_str caffeine_session)))"
proof -
  have h1: "nodes_dict caffeine_session = empty_nodes"
    and h2: "edges_dict caffeine_session = empty_edges"
    by (simp_all add: caffeine_session_def example_sessions_start_empty)
  have h3: "\<forall>b \<in> set (GetBonds (mol caffeine_session)).
      GetBeginAtomIdx b \<in> GetIdx ` set (GetAtoms (mol caffeine_session)) \<and>
      GetEndAtomIdx b \<in> GetIdx ` set (GetAtoms (mol caffeine_session))"
    by (simp add: caffeine_session_def example_sessions_start_empty caffeine_mol_def
        mk_atom_def mk_bond_def)
  from projection_edges_refer_to_nodes [OF h1 h2 h3, of BondType_str] h1 h2 h3
  show ?thesis by (simp only: list_all_iff simp_thms)
qed

text \<open>
  C3. When the atoms of the parsed molecule have pairwise distinct indices, the node
  identifiers that a run from the empty dictionaries produces are pairwise distinct.
\<close>

theorem projection_node_ids_distinct:
  assumes "nodes_dict s = empty_nodes"
    and "distinct (map GetIdx (GetAtoms (mol s)))"
  shows "distinct (nd_id (nodes_dict (projection str_bt s)))"
proof -
  have "inj_on (node_id (caffeine_smiles s)) (set (map GetIdx (GetAtoms (mol s))))"
    by (rule inj_onI) (simp add: node_id_eq_iff)
  with assms(2) have "distinct (map (node_id (caffeine_smiles s)) (map GetIdx (GetAtoms (mol s))))"
    by (simp only: distinct_map simp_thms)
  then show ?thesis
    using assms(1) by (simp add: projection_node_columns empty_columns comp_def)
qed

theorem projection_node_ids_distinct_witness:
  "nodes_dict caffeine_session = empty_nodes \<and>
   distinct (map GetIdx (GetAtoms (mol caffeine_session))) \<and>
   distinct (nd_id (nodes_dict (projection BondType_str caffeine_session)))"
proof -
  have h1: "nodes_dict caffeine_session = empty_nodes"
    by (simp add: caffeine_session_def example_sessions_start_empty)
  have h2: "distinct (map GetIdx (GetAtoms (mol caffeine_session)))"
    by (simp add: caffeine_session_def example_sessions_start_empty caffeine_mol_def mk_atom_def)
  from projection_node_ids_distinct [OF h1 h2, of BondType_str] h1 h2
  show ?thesis by blast
qed

text \<open>
  C4. Identifier construction. Every node identifier the projection appends is the tag
  \<^verbatim>\<open>Node-\<close>, then the descriptor text as it is, then the decimal rendering of the atom's
  index; every edge identifier it appends is the tag \<^verbatim>\<open>edge-\<close>, then the descriptor
  text, then the decimal renderings of the bond's begin and end indices, one after the
  other. Nothing is escaped or put between the parts, and the identifiers are appended
  whatever the table already holds and whatever was appended before.
\<close>

theorem projection_identifiers_are_concatenations:
  "nd_id (nodes_dict (projection str_bt s)) =
     nd_id (nodes_dict s) @
     map (\<lambda>a. ''Node-'' @ caffeine_smiles s @ str (GetIdx a)) (GetAtoms (mol s)) \<and>
   ed_id (edges_dict (projection str_bt s)) =
     ed_id (edges_dict s) @
     map (\<lambda>b. ''edge-'' @ caffeine_smiles s @ str (GetBeginAtomIdx b) @ str (GetEndAtomIdx b))
       (GetBonds (mol s))"
  by (simp add: projection_node_columns projection_edge_columns node_id_def edge_id_def)

theorem projection_identifiers_are_concatenations_witness:
  "nd_id (nodes_dict (projection BondType_str ethanol_session)) =
     [''Node-CCO0'', ''Node-CCO1'', ''Node-CCO2''] \<and>
   ed_id (edges_dict (projection BondType_str ethanol_session)) =
     [''edge-CCO01'', ''edge-CCO12'']"
proof -
  have digits: "str 0 = ''0''" "str 1 = ''1''" "str 2 = ''2''"
    by code_simp+
  show ?thesis
    using projection_identifiers_are_concatenations [of BondType_str ethanol_session]
    by (simp add: digits ethanol_session_def example_sessions_start_empty empty_columns
        ethanol_mol_def mk_atom_def mk_bond_def)
qed

text \<open>
  C5. Determinism. Two runs of the projection that start from the empty dictionaries
  with the same descriptor and the same parsed molecule, in sessions that may differ in
  everything else, end with the same node table and the same edge table, column for
  column and row for row.
\<close>

theorem projection_deterministic:
  assumes "caffeine_smiles s = caffeine_smiles t" and "mol s = mol t"
    and "nodes_dict s = empty_nodes" and "edges_dict s = empty_edges"
    and "nodes_dict t = empty_nodes" and "edges_dict t = empty_edges"
  shows "nodes_dict (projection str_bt s) = nodes_dict (projection str_bt t) \<and>
         edges_dict (projection str_bt s) = edges_dict (projection str_bt t)"
proof
  show "nodes_dict (projection str_bt s) = nodes_dict (projection str_bt t)"
    using assms by (intro nodes_table.equality) (simp_all add: projection_node_columns)
  show "edges_dict (projection str_bt s) = edges_dict (projection str_bt t)"
    using assms by (intro edges_table.equality) (simp_all add: projection_edge_columns)
qed

theorem projection_deterministic_witness:
  "nodes_dict (projection BondType_str ethanol_session) =
     nodes_dict (projection BondType_str
       (ethanol_session\<lparr>nodes_df := nodes_dict (projection BondType_str caffeine_session),
          client := [''g.V().count()'']\<rparr>)) \<and>
   edges_dict (projection BondType_str ethanol_session) =
     edges_dict (projection BondType_str
       (ethanol_session\<lparr>nodes_df := nodes_dict (projection BondType_str caffeine_session),
          client := [''g.V().count()'']\<rparr>))"
  using projection_deterministic [of ethanol_session
      "ethanol_session\<lparr>nodes_df := nodes_dict (projection BondType_str caffeine_session),
          client := [''g.V().count()'']\<rparr>" BondType_str]
  by (simp add: ethanol_session_def example_sessions_start_empty)


text \<open>
  C6. Caffeine. For the descriptor \<^verbatim>\<open>CN1C=NC2=C1C(=O)N(C(=O)N2C)C\<close>, whose parsed
  molecule has 14 heavy atoms and 15 bonds, a run from the empty dictionaries produces
  exactly 14 node records and exactly 15 edge records.
\<close>

theorem caffeine_record_counts:
  assumes "caffeine_smiles s = ''CN1C=NC2=C1C(=O)N(C(=O)N2C)C''"
    and "length (GetAtoms (mol s)) = 14" and "length (GetBonds (mol s)) = 15"
    and "nodes_dict s = empty_nodes" and "edges_dict s = empty_edges"
  shows "length (node_rows (nodes_dict (projection str_bt s))) = 14 \<and>
         length (edge_rows (edges_dict (projection str_bt s))) = 15"
  using assms
  by (simp add: node_rows_def edge_rows_def projection_node_columns projection_edge_columns
      empty_columns)

theorem caffeine_record_counts_witness:
  "caffeine_smiles caffeine_session = ''CN1C=NC2=C1C(=O)N(C(=O)N2C)C'' \<and>
   length (GetAtoms (mol caffeine_session)) = 14 \<and>
   length (GetBonds (mol caffeine_session)) = 15 \<and>
   length (node_rows (nodes_dict (projection BondType_str caffeine_session))) = 14 \<and>
   length (edge_rows (edges_dict (projection BondType_str caffeine_session))) = 15"
proof -
  have h1: "caffeine_smiles caffeine_session = ''CN1C=NC2=C1C(=O)N(C(=O)N2C)C''"
    by (simp add: caffeine_session_def example_sessions_start_empty)
  have h2: "length (GetAtoms (mol caffeine_session)) = 14"
    and h3: "length (GetBonds (mol caffeine_session)) = 15"
    by (simp_all add: caffeine_session_def example_sessions_start_empty caffeine_mol_def)
  have h4: "nodes_dict caffeine_session = empty_nodes"
    and h5: "edges_dict caffeine_session = empty_edges"
    by (simp_all add: caffeine_session_def example_sessions_start_empty)
  from caffeine_record_counts [OF h1 h2 h3 h4 h5, of BondType_str] h1 h2 h3
  show ?thesis by blast
qed

text \<open>
  C7. The clean-up cell reads the \<^verbatim>\<open>~id\<close> column of the node frame and submits, after
  whatever was submitted before, exactly one drop query per entry, in row order, each
  query naming that one identifier; the number of queries it submits is the number of
  node records. When the frames come from a projection run that started from the empty
  dictionaries, none of the submitted queries is the drop query of an edge identifier.
\<close>

theorem cleanup_one_drop_per_node_id:
  assumes "nodes_dict s0 = empty_nodes" and "edges_dict s0 = empty_edges"
    and "s = data_frames (projection str_bt s0)"
  shows "client (cleanup s) = client s @ map drop_query (nd_id (nodes_df s)) \<and>
         length (client (cleanup s)) = length (client s) + length (node_rows (nodes_df s)) \<and>
         (\<forall>e \<in> set (ed_id (edges_df s)).
            drop_query e \<notin> set (drop (length (client s)) (client (cleanup s))))"
proof -
  have sent: "client (cleanup s) = client s @ map drop_query (nd_id (nodes_df s))"
    by (simp add: cleanup_def for_ids_client)
  have frames: "nodes_df s = nodes_dict (projection str_bt s0)"
    "edges_df s = edges_dict (projection str_bt s0)"
    using assms(3) by (simp_all add: data_frames_def Let_def)
  have "rectangular (projection str_bt s0)"
    using assms(1,2) by (rule projection_rectangular_from_empty)
  then have rows: "length (node_rows (nodes_df s)) = length (nd_id (nodes_df s))"
    by (simp add: frames rectangular_def rectangular_nodes_def node_rows_def)
  have no_edge: "drop_query e \<notin> set (map drop_query (nd_id (nodes_df s)))"
    if "e \<in> set (ed_id (edges_df s))" for e
  proof
    assume "drop_query e \<in> set (map drop_query (nd_id (nodes_df s)))"
    then have "e \<in> set (nd_id (nodes_df s))"
      by (auto simp: drop_query_eq_iff)
    then obtain i where "e = node_id (caffeine_smiles s0) i"
      using assms(1) by (auto simp: frames projection_node_columns empty_columns)
    moreover have "e \<in> (\<lambda>b. edge_id (caffeine_smiles s0) (GetBeginAtomIdx b) (GetEndAtomIdx b)) `
        set (GetBonds (mol s0))"
      using that assms(2) by (simp add: frames projection_edge_columns empty_columns)
    then obtain j k where "e = edge_id (caffeine_smiles s0) j k"
      by blast
    ultimately show False
      by (simp add: node_id_def edge_id_def)
  qed
  from sent rows no_edge show ?thesis by simp
qed

theorem cleanup_one_drop_per_node_id_witness:
  "client (cleanup (data_frames (projection BondType_str ethanol_session))) =
     [''g.V().has('~id', 'Node-CCO0').drop();'', ''g.V().has('~id', 'Node-CCO1').drop();'',
      ''g.V().has('~id', 'Node-CCO2').drop();''] \<and>
   list_all
     (\<lambda>e. drop_query e \<notin>
        set (client (cleanup (data_frames (projection BondType_str ethanol_session)))))
     (ed_id (edges_df (data_frames (projection BondType_str ethanol_session))))"
proof -
  let ?s = "data_frames (projection BondType_str ethanol_session)"
  have h1: "nodes_dict ethanol_session = empty_nodes"
    and h2: "edges_dict ethanol_session = empty_edges"
    by (simp_all add: ethanol_session_def example_sessions_start_empty)
  have c: "client ?s = []"
    by (simp add: data_frames_def Let_def projection_other ethanol_session_def
        example_sessions_start_empty)
  have n: "nd_id (nodes_df ?s) = [''Node-CCO0'', ''Node-CCO1'', ''Node-CCO2'']"
    using ethanol_projection by (simp add: data_frames_def Let_def)
  note inst = cleanup_one_drop_per_node_id [OF h1 h2 refl, of BondType_str]
  from inst have sent: "client (cleanup ?s) = client ?s @ map drop_query (nd_id (nodes_df ?s))"
    by blast
  from inst have no_edge: "\<forall>e \<in> set (ed_id (edges_df ?s)).
      drop_query e \<notin> set (drop (length (client ?s)) (client (cleanup ?s)))"
    by blast
  from sent c n have "client (cleanup ?s) =
     [''g.V().has('~id', 'Node-CCO0').drop();'', ''g.V().has('~id', 'Node-CCO1').drop();'',
      ''g.V().has('~id', 'Node-CCO2').drop();'']"
    by (simp add: drop_query_def)
  moreover from no_edge c have "\<forall>e \<in> set (ed_id (edges_df ?s)).
      drop_query e \<notin> set (client (cleanup ?s))"
    by simp
  ultimately show ?thesis by (simp only: list_all_iff simp_thms)
qed


text \<open>
  C8. Frame condition, as the code has it. The projection changes the two dictionaries
  and the two loop variables \<^verbatim>\<open>atom\<close> and \<^verbatim>\<open>bond\<close>, and nothing else. Each loop
  variable ends bound to the last element of its sequence, and keeps what it held when
  the sequence is empty. The descriptor string, the parsed molecule, the two data
  frames, the connection to the store, the variable of the clean-up loop and every
  further part of the session are after the run what they were before it, so the state
  after the run is the state before it with the two dictionaries and the two loop
  variables replaced.
\<close>

theorem projection_frame_up_to_loop_variables:
  "caffeine_smiles (projection str_bt s) = caffeine_smiles s \<and>
   mol (projection str_bt s) = mol s \<and>
   nodes_df (projection str_bt s) = nodes_df s \<and>
   edges_df (projection str_bt s) = edges_df s \<and>
   client (projection str_bt s) = client s \<and>
   loop_i (projection str_bt s) = loop_i s \<and>
   notebook.more (projection str_bt s) = notebook.more s \<and>
   atom (projection str_bt s) =
     (if GetAtoms (mol s) = [] then atom s else Some (last (GetAtoms (mol s)))) \<and>
   bond (projection str_bt s) =
     (if GetBonds (mol s) = [] then bond s else Some (last (GetBonds (mol s)))) \<and>
   projection str_bt s =
     s\<lparr>nodes_dict := nodes_dict (projection str_bt s),
       edges_dict := edges_dict (projection str_bt s),
       atom := atom (projection str_bt s),
       bond := bond (projection str_bt s)\<rparr>"
proof -
  have "projection str_bt s =
     s\<lparr>nodes_dict := nodes_dict (projection str_bt s),
       edges_dict := edges_dict (projection str_bt s),
       atom := atom (projection str_bt s),
       bond := bond (projection str_bt s)\<rparr>"
    by (rule notebook.equality) (simp_all add: projection_other)
  then show ?thesis
    by (simp add: projection_other projection_loop_variables)
qed

theorem projection_frame_up_to_loop_variables_witness:
  "caffeine_smiles (projection BondType_str (caffeine_session\<lparr>client := [''g.V().count()'']\<rparr>)) =
     ''CN1C=NC2=C1C(=O)N(C(=O)N2C)C'' \<and>
   mol (projection BondType_str (caffeine_session\<lparr>client := [''g.V().count()'']\<rparr>)) =
     caffeine_mol \<and>
   client (projection BondType_str (caffeine_session\<lparr>client := [''g.V().count()'']\<rparr>)) =
     [''g.V().count()''] \<and>
   loop_i (projection BondType_str (caffeine_session\<lparr>client := [''g.V().count()'']\<rparr>)) = None \<and>
   atom (projection BondType_str (caffeine_session\<lparr>client := [''g.V().count()'']\<rparr>)) =
     Some (mk_atom 13 ''C'' 6 False) \<and>
   bond (projection BondType_str (caffeine_session\<lparr>client := [''g.V().count()'']\<rparr>)) =
     Some (mk_bond 11 4 AROMATIC)"
  using projection_frame_up_to_loop_variables
    [of BondType_str "caffeine_session\<lparr>client := [''g.V().count()'']\<rparr>"]
  by (simp add: caffeine_session_def session_def caffeine_mol_def)

text \<open>
  The frame condition without the loop variables fails. In a session for \<^verbatim>\<open>CCO\<close> where
  \<^verbatim>\<open>atom\<close> is already bound (here to a hydrogen numbered 99) and \<^verbatim>\<open>bond\<close> is not,
  the run rebinds \<^verbatim>\<open>atom\<close> to the oxygen and binds \<^verbatim>\<open>bond\<close> to the second bond, so
  the state after the run is not the state before it with only the two dictionaries
  replaced.
\<close>

theorem projection_frame_counterexample:
  "atom (ethanol_session\<lparr>atom := Some (mk_atom 99 ''H'' 1 False)\<rparr>) =
     Some (mk_atom 99 ''H'' 1 False) \<and>
   atom (projection BondType_str (ethanol_session\<lparr>atom := Some (mk_atom 99 ''H'' 1 False)\<rparr>)) =
     Some (mk_atom 2 ''O'' 8 False) \<and>
   atom (projection BondType_str (ethanol_session\<lparr>atom := Some (mk_atom 99 ''H'' 1 False)\<rparr>)) \<noteq>
     atom (ethanol_session\<lparr>atom := Some (mk_atom 99 ''H'' 1 False)\<rparr>) \<and>
   bond (ethanol_session\<lparr>atom := Some (mk_atom 99 ''H'' 1 False)\<rparr>) = None \<and>
   bond (projection BondType_str (ethanol_session\<lparr>atom := Some (mk_atom 99 ''H'' 1 False)\<rparr>)) =
     Some (mk_bond 1 2 SINGLE) \<and>
   projection BondType_str (ethanol_session\<lparr>atom := Some (mk_atom 99 ''H'' 1 False)\<rparr>) \<noteq>
     (ethanol_session\<lparr>atom := Some (mk_atom 99 ''H'' 1 False)\<rparr>)
       \<lparr>nodes_dict :=
          nodes_dict (projection BondType_str
            (ethanol_session\<lparr>atom := Some (mk_atom 99 ''H'' 1 False)\<rparr>)),
        edges_dict :=
          edges_dict (projection BondType_str
            (ethanol_session\<lparr>atom := Some (mk_atom 99 ''H'' 1 False)\<rparr>))\<rparr>"
proof -
  let ?s = "ethanol_session\<lparr>atom := Some (mk_atom 99 ''H'' 1 False)\<rparr>"
  have before: "atom ?s = Some (mk_atom 99 ''H'' 1 False)" "bond ?s = None"
    by (simp_all add: ethanol_session_def session_def)
  have after_atom: "atom (projection BondType_str ?s) = Some (mk_atom 2 ''O'' 8 False)"
    by (simp add: projection_loop_variables ethanol_session_def session_def ethanol_mol_def)
  have after_bond: "bond (projection BondType_str ?s) = Some (mk_bond 1 2 SINGLE)"
    by (simp add: projection_loop_variables ethanol_session_def session_def ethanol_mol_def)
  have changed: "projection BondType_str ?s \<noteq>
      ?s\<lparr>nodes_dict := nodes_dict (projection BondType_str ?s),
         edges_dict := edges_dict (projection BondType_str ?s)\<rparr>"
  proof
    assume "projection BondType_str ?s =
      ?s\<lparr>nodes_dict := nodes_dict (projection BondType_str ?s),
         edges_dict := edges_dict (projection BondType_str ?s)\<rparr>"
    then have "bond (projection BondType_str ?s) =
      bond (?s\<lparr>nodes_dict := nodes_dict (projection BondType_str ?s),
         edges_dict := edges_dict (projection BondType_str ?s)\<rparr>)"
      by (rule arg_cong)
    with after_bond before(2) show False by simp
  qed
  have "mk_atom 2 ''O'' 8 False \<noteq> mk_atom 99 ''H'' 1 False"
    by (simp add: mk_atom_def)
  then have atom_changed: "atom (projection BondType_str ?s) \<noteq> atom ?s"
    by (simp only: after_atom before option.inject not_False_eq_True)
  from before after_atom atom_changed after_bond changed show ?thesis by blast
qed

text \<open>
  C9. When every atom index of the parsed molecule is a single decimal digit, every bond
  joins atoms of the molecule, and no two bonds have the same (begin, end) pair, the
  edge identifiers that a run from the empty dictionaries produces are pairwise
  distinct. The two indices are written one after the other with nothing between them;
  with single digits each takes exactly one character, which is what makes the pair
  readable from the identifier (\<open>edge_id_collision_beyond_digits\<close> shows two different
  pairs with one identifier once an index has two digits).
\<close>

theorem projection_edge_ids_distinct:
  assumes "edges_dict s = empty_edges"
    and "\<forall>a \<in> set (GetAtoms (mol s)). 0 \<le> GetIdx a \<and> GetIdx a \<le> 9"
    and "\<forall>b \<in> set (GetBonds (mol s)).
           GetBeginAtomIdx b \<in> GetIdx ` set (GetAtoms (mol s)) \<and>
           GetEndAtomIdx b \<in> GetIdx ` set (GetAtoms (mol s))"
    and "distinct (map (\<lambda>b. (GetBeginAtomIdx b, GetEndAtomIdx b)) (GetBonds (mol s)))"
  shows "distinct (ed_id (edges_dict (projection str_bt s)))"
proof -
  let ?d = "caffeine_smiles s"
  let ?ends = "map (\<lambda>b. (GetBeginAtomIdx b, GetEndAtomIdx b)) (GetBonds (mol s))"
  have digits: "0 \<le> i \<and> i \<le> 9" if "(i, j) \<in> set ?ends" for i j
    using that assms(2,3) by auto
  have "inj_on (\<lambda>p. edge_id ?d (fst p) (snd p)) (set ?ends)"
  proof (rule inj_onI)
    fix p q
    assume p: "p \<in> set ?ends" and q: "q \<in> set ?ends"
      and e: "edge_id ?d (fst p) (snd p) = edge_id ?d (fst q) (snd q)"
    from p have "0 \<le> fst p \<and> fst p \<le> 9" using digits [of "fst p" "snd p"] by simp
    moreover from q have "0 \<le> fst q \<and> fst q \<le> 9" using digits [of "fst q" "snd q"] by simp
    ultimately have "fst p = fst q \<and> snd p = snd q"
      using e by (simp add: edge_id_eq_iff_digits)
    then show "p = q" by (simp add: prod_eq_iff)
  qed
  with assms(4) have "distinct (map (\<lambda>p. edge_id ?d (fst p) (snd p)) ?ends)"
    by (simp only: distinct_map simp_thms)
  then show ?thesis
    using assms(1) by (simp add: projection_edge_columns empty_columns comp_def)
qed

theorem projection_edge_ids_distinct_witness:
  "edges_dict ethanol_session = empty_edges \<and>
   list_all (\<lambda>a. 0 \<le> GetIdx a \<and> GetIdx a \<le> 9) (GetAtoms (mol ethanol_session)) \<and>
   list_all (\<lambda>b. GetBeginAtomIdx b \<in> GetIdx ` set (GetAtoms (mol ethanol_session)) \<and>
               GetEndAtomIdx b \<in> GetIdx ` set (GetAtoms (mol ethanol_session)))
     (GetBonds (mol ethanol_session)) \<and>
   distinct (map (\<lambda>b. (GetBeginAtomIdx b, GetEndAtomIdx b)) (GetBonds (mol ethanol_session))) \<and>
   distinct (ed_id (edges_dict (projection BondType_str ethanol_session)))"
proof -
  have h1: "edges_dict ethanol_session = empty_edges"
    by (simp add: ethanol_session_def example_sessions_start_empty)
  have h2: "\<forall>a \<in> set (GetAtoms (mol ethanol_session)). 0 \<le> GetIdx a \<and> GetIdx a \<le> 9"
    by (simp add: ethanol_session_def example_sessions_start_empty ethanol_mol_def mk_atom_def)
  have h3: "\<forall>b \<in> set (GetBonds (mol ethanol_session)).
      GetBeginAtomIdx b \<in> GetIdx ` set (GetAtoms (mol ethanol_session)) \<and>
      GetEndAtomIdx b \<in> GetIdx ` set (GetAtoms (mol ethanol_session))"
    by (simp add: ethanol_session_def example_sessions_start_empty ethanol_mol_def
        mk_atom_def mk_bond_def)
  have h4: "distinct (map (\<lambda>b. (GetBeginAtomIdx b, GetEndAtomIdx b))
      (GetBonds (mol ethanol_session)))"
    by (simp add: ethanol_session_def example_sessions_start_empty ethanol_mol_def mk_bond_def)
  from projection_edge_ids_distinct [OF h1 h2 h3 h4, of BondType_str] h1 h2 h3 h4
  show ?thesis by (simp only: list_all_iff simp_thms)
qed

text \<open>
  C10. Rectangularity. Starting from the two empty dictionaries, in the state after each
  iteration of the atom loop and of the bond loop the five columns of the node table
  have one length and the four columns of the edge table have one length; the state
  after the last iteration is the result of the projection, so the same holds there,
  and each finished table is well formed. There is one such state per atom and per bond.
\<close>

theorem projection_rectangular_after_each_iteration:
  assumes "nodes_dict s = empty_nodes" and "edges_dict s = empty_edges"
  shows "(\<forall>t \<in> set (projection_trace str_bt s).
            rectangular_nodes (nodes_dict t) \<and> rectangular_edges (edges_dict t)) \<and>
         rectangular_nodes (nodes_dict (projection str_bt s)) \<and>
         rectangular_edges (edges_dict (projection str_bt s)) \<and>
         projection str_bt s = last (s # projection_trace str_bt s) \<and>
         length (projection_trace str_bt s) =
           length (GetAtoms (mol s)) + length (GetBonds (mol s))"
proof -
  have r0: "rectangular s"
    using assms by (rule empty_rectangular)
  then have r1: "rectangular (for_atoms (GetAtoms (mol s)) s)"
    by (rule for_atoms_rectangular)
  have "rectangular t" if "t \<in> set (projection_trace str_bt s)" for t
    using that r0 r1
    by (auto simp: projection_trace_def Let_def
        dest: atoms_trace_rectangular bonds_trace_rectangular)
  then have each: "\<forall>t \<in> set (projection_trace str_bt s).
      rectangular_nodes (nodes_dict t) \<and> rectangular_edges (edges_dict t)"
    by (simp add: rectangular_def)
  have final: "rectangular (projection str_bt s)"
    using assms by (rule projection_rectangular_from_empty)
  have len: "length (projection_trace str_bt s) =
      length (GetAtoms (mol s)) + length (GetBonds (mol s))"
    by (simp add: projection_trace_def Let_def length_atoms_trace length_bonds_trace
        for_atoms_other)
  from each final len projection_last_trace [of str_bt s] show ?thesis
    by (simp add: rectangular_def)
qed

theorem projection_rectangular_after_each_iteration_witness:
  "nodes_dict ethanol_session = empty_nodes \<and> edges_dict ethanol_session = empty_edges \<and>
   length (projection_trace BondType_str ethanol_session) = 5 \<and>
   list_all (\<lambda>t. rectangular_nodes (nodes_dict t) \<and> rectangular_edges (edges_dict t))
     (projection_trace BondType_str ethanol_session) \<and>
   rectangular_nodes (nodes_dict (projection BondType_str ethanol_session)) \<and>
   rectangular_edges (edges_dict (projection BondType_str ethanol_session))"
proof -
  have h1: "nodes_dict ethanol_session = empty_nodes"
    and h2: "edges_dict ethanol_session = empty_edges"
    by (simp_all add: ethanol_session_def example_sessions_start_empty)
  have n: "length (GetAtoms (mol ethanol_session)) + length (GetBonds (mol ethanol_session)) = 5"
    by (simp add: ethanol_session_def example_sessions_start_empty ethanol_mol_def)
  note inst = projection_rectangular_after_each_iteration [OF h1 h2, of BondType_str]
  from inst have each: "\<forall>t \<in> set (projection_trace BondType_str ethanol_session).
      rectangular_nodes (nodes_dict t) \<and> rectangular_edges (edges_dict t)"
    by blast
  from inst have final: "rectangular_nodes (nodes_dict (projection BondType_str ethanol_session))"
    "rectangular_edges (edges_dict (projection BondType_str ethanol_session))"
    by blast+
  from inst have "length (projection_trace BondType_str ethanol_session) =
      length (GetAtoms (mol ethanol_session)) + length (GetBonds (mol ethanol_session))"
    by blast
  with n have len: "length (projection_trace BondType_str ethanol_session) = 5"
    by simp
  from h1 h2 len each final show ?thesis by (simp only: list_all_iff simp_thms)
qed

end
